theory Spec2Isabelle
  imports Main "HOL-Library.Word"
begin

section \<open>JavaScript strings\<close>

text \<open>
  A JavaScript string is a sequence of UTF-16 code units. Source literals are ASCII and
  are written with \<open>js\<close>. \<open>String.prototype.trim\<close> removes the ECMAScript
  WhiteSpace and LineTerminator code points from both ends; all of them lie in the
  basic plane, so they are single code units.
\<close>

type_synonym jsstring = "16 word list"

definition js :: "string \<Rightarrow> jsstring" where
  "js s = map of_char s"

definition is_ws :: "16 word \<Rightarrow> bool" where
  "is_ws c =
     (c = 0x0009 \<or> c = 0x000A \<or> c = 0x000B \<or> c = 0x000C \<or> c = 0x000D \<or>
      c = 0x0020 \<or> c = 0x00A0 \<or> c = 0x1680 \<or> (0x2000 \<le> c \<and> c \<le> 0x200A) \<or>
      c = 0x2028 \<or> c = 0x2029 \<or> c = 0x202F \<or> c = 0x205F \<or> c = 0x3000 \<or>
      c = 0xFEFF)"

definition trim :: "jsstring \<Rightarrow> jsstring" where
  "trim s = rev (dropWhile is_ws (rev (dropWhile is_ws s)))"

text \<open>\<open>Array.prototype.forEach\<close> with a callback that updates local variables.\<close>

definition forEach :: "'a list \<Rightarrow> ('a \<Rightarrow> 's \<Rightarrow> 's) \<Rightarrow> 's \<Rightarrow> 's" where
  "forEach xs f s = fold f xs s"

definition push :: "'a \<Rightarrow> 'a list \<Rightarrow> 'a list" where
  "push x xs = xs @ [x]"


section \<open>Route metadata and the graph built from it\<close>

record related_route =
  related_pattern :: jsstring
  relationship :: jsstring

record route =
  pattern :: jsstring
  related :: "related_route list"

record route_set =
  explainer_routes :: "route list"

record edge =
  source :: jsstring
  target :: jsstring
  label :: jsstring

text \<open>The two local arrays of \<open>generateRouteDotGraph\<close>.\<close>

record graph =
  explainerGraphNodes :: "jsstring list"
  explainerGraphEdges :: "edge list"

definition add_related :: "route \<Rightarrow> related_route \<Rightarrow> graph \<Rightarrow> graph" where
  "add_related explainerRoute relatedRoute g =
     g\<lparr>explainerGraphEdges :=
         push \<lparr>source = pattern explainerRoute,
               target = related_pattern relatedRoute,
               label = relationship relatedRoute\<rparr>
           (explainerGraphEdges g)\<rparr>"

definition add_route :: "route \<Rightarrow> graph \<Rightarrow> graph" where
  "add_route explainerRoute g =
     forEach (related explainerRoute) (add_related explainerRoute)
       (g\<lparr>explainerGraphNodes := push (pattern explainerRoute) (explainerGraphNodes g)\<rparr>)"

definition build_graph :: "route_set \<Rightarrow> graph" where
  "build_graph rs =
     forEach (explainer_routes rs) add_route
       \<lparr>explainerGraphNodes = [], explainerGraphEdges = []\<rparr>"


section \<open>The DOT text\<close>

definition node_line :: "jsstring \<Rightarrow> jsstring" where
  \<open>node_line node = js ''  "'' @ node @ js ''";\<newline>''\<close>

definition edge_line :: "edge \<Rightarrow> jsstring" where
  \<open>edge_line e =
     js ''  "'' @ source e @ js ''" -> "'' @ target e @ js ''" [label="'' @ label e
       @ js ''"];\<newline>''\<close>

definition serialize :: "graph \<Rightarrow> jsstring" where
  "serialize g =
     (let dot = js ''digraph KnowledgeRoutes {\<newline>'';
          dot = forEach (explainerGraphNodes g) (\<lambda>node dot. dot @ node_line node) dot;
          dot = forEach (explainerGraphEdges g) (\<lambda>e dot. dot @ edge_line e) dot
      in dot @ js ''}\<newline>'')"

text \<open>
  The layout the specification gives for the text: the opening line, one line per node,
  one line per edge, the closing line.
\<close>

definition spec_dot_text :: "jsstring list \<Rightarrow> edge list \<Rightarrow> jsstring" where
  \<open>spec_dot_text ns es =
     js ''digraph KnowledgeRoutes {\<newline>''
     @ concat (map (\<lambda>n. js ''  "'' @ n @ js ''";\<newline>'') ns)
     @ concat (map (\<lambda>e. js ''  "'' @ source e @ js ''" -> "'' @ target e
                          @ js ''" [label="'' @ label e @ js ''"];\<newline>'') es)
     @ js ''}\<newline>''\<close>


section \<open>The dashboard session\<close>

text \<open>
  The props of \<open>KnowledgeLayerDashboard\<close>: each field says whether that capability
  of the channel adapter was supplied (a supplied function is truthy, a missing one is
  \<open>undefined\<close>).
\<close>

record props =
  sendMessage :: bool
  registerMessageHandler :: bool
  deregisterMessageHandler :: bool

datatype console_arg =
    ArgRoutes route_set
  | ArgString jsstring
  | ArgNodes "jsstring list"
  | ArgEdges "edge list"
  | ArgErr

datatype console_entry =
    ConsoleLog jsstring "console_arg list"
  | ConsoleError jsstring "console_arg list"

record message =
  msg_namespace :: jsstring
  msg_action :: jsstring
  msg_payload :: "jsstring option"

type_synonym key = "jsstring \<times> jsstring"

text \<open>The two arrow functions handed to \<open>registerMessageHandler\<close>.\<close>

datatype callback = OnRoutes | OnQueryResponse

datatype payload = RoutesPayload route_set | TextPayload jsstring

text \<open>
  What the browser does when the DOT text is copied: whether \<open>navigator.clipboard\<close>
  exists, whether the promise of \<open>writeText\<close> resolves or rejects, and whether
  \<open>document.execCommand\<close> returns (true or false) or throws.
\<close>

datatype exec_outcome = ExecReturns bool | ExecThrows

record browser =
  has_clipboard :: bool
  writeText_resolves :: bool
  execCommand_outcome :: exec_outcome

record dom_node =
  node_id :: nat
  node_tag :: jsstring
  node_value :: jsstring

datatype dom_op = AppendChild nat | Select nat | ExecCommand jsstring | RemoveChild nat

text \<open>
  Everything the component reads or changes: whether it is mounted, the cleanup function
  its first effect returned (if any), its three \<open>useState\<close> cells, the console,
  the calls made on the channel adapter with the adapter's registry, the children of
  \<open>document.body\<close> with the operations performed on them, and the system clipboard.


  The first effect has an empty dependency list: it runs once, after the first render,
  and the cleanup function it returns is a closure of that render. The cleanup is
  therefore kept as the props it closed over: it tests the
  \<open>deregisterMessageHandler\<close> of the first render, whatever later renders are
  given.
\<close>

record world =
  mounted :: bool
  effect_cleanup :: "props option"
  knowledgeQueryInput :: jsstring
  knowledgeLayerRoutes :: "route_set option"
  knowledgeQueryResponse :: jsstring
  console :: "console_entry list"
  sent :: "message list"
  registry :: "key \<rightharpoonup> callback"
  deregistered :: "key list"
  body :: "dom_node list"
  next_node_id :: nat
  dom_log :: "dom_op list"
  clipboard :: "jsstring option"

definition init_world :: world where
  "init_world =
     \<lparr>mounted = False, effect_cleanup = None,
      knowledgeQueryInput = [], knowledgeLayerRoutes = None,
      knowledgeQueryResponse = [],
      console = [], sent = [], registry = Map.empty, deregistered = [],
      body = [], next_node_id = 0, dom_log = [], clipboard = None\<rparr>"

definition console_log :: "jsstring \<Rightarrow> console_arg list \<Rightarrow> world \<Rightarrow> world" where
  "console_log msg args w = w\<lparr>console := console w @ [ConsoleLog msg args]\<rparr>"

definition console_error :: "jsstring \<Rightarrow> console_arg list \<Rightarrow> world \<Rightarrow> world" where
  "console_error msg args w = w\<lparr>console := console w @ [ConsoleError msg args]\<rparr>"

definition key_get_routes :: key where
  "key_get_routes = (js ''knowledge_layer'', js ''get_routes'')"

definition key_query_knowledge :: key where
  "key_query_knowledge = (js ''knowledge_layer'', js ''query_knowledge'')"


subsection \<open>The channel adapter\<close>

text \<open>
  Modelled from the spec: the channel adapter is an external collaborator whose code is
  not part of the component. Its contract: \<open>registerMessageHandler\<close> installs one
  callback per (namespace, action) key and a second call for the same key replaces the
  first; \<open>deregisterMessageHandler\<close> removes the callback of a key; \<open>sendMessage\<close>
  is fire-and-forget; an inbound message is handed to the callback registered for its
  key and dropped when there is none.
\<close>

definition adapter_register :: "key \<Rightarrow> callback \<Rightarrow> world \<Rightarrow> world" where
  "adapter_register k cb w = w\<lparr>registry := (registry w)(k \<mapsto> cb)\<rparr>"

definition adapter_deregister :: "key \<Rightarrow> world \<Rightarrow> world" where
  "adapter_deregister k w =
     w\<lparr>registry := (registry w)(k := None), deregistered := deregistered w @ [k]\<rparr>"

definition adapter_send :: "jsstring \<Rightarrow> jsstring \<Rightarrow> jsstring option \<Rightarrow> world \<Rightarrow> world" where
  "adapter_send ns act pl w =
     w\<lparr>sent := sent w @ [\<lparr>msg_namespace = ns, msg_action = act, msg_payload = pl\<rparr>]\<rparr>"


subsection \<open>Effects and handlers\<close>

text \<open>
  The second effect depends on \<open>knowledgeQueryResponse\<close>: it runs after the first
  render and after every render in which that value has changed.
\<close>

definition response_effect :: "world \<Rightarrow> world" where
  "response_effect w =
     console_log (js ''Knowledge Query Response Updated:'')
       [ArgString (knowledgeQueryResponse w)] w"

text \<open>
  The callbacks. A state setter called after the component has been unmounted changes
  nothing; a setter called with the value the cell already holds causes no render, so
  the second effect does not run.
\<close>

definition on_routes :: "route_set \<Rightarrow> world \<Rightarrow> world" where
  "on_routes response w =
     (let w1 = console_log (js ''Received knowledge layer routes:'') [ArgRoutes response] w
      in if mounted w1 then w1\<lparr>knowledgeLayerRoutes := Some response\<rparr> else w1)"

definition on_query_response :: "jsstring \<Rightarrow> world \<Rightarrow> world" where
  "on_query_response response w =
     (let w1 = console_log (js ''Received knowledge query response:'') [ArgString response] w
      in if mounted w1 then
           (let w2 = w1\<lparr>knowledgeQueryResponse := response\<rparr>
            in if response = knowledgeQueryResponse w1 then w2 else response_effect w2)
         else w1)"

text \<open>
  The first effect: without \<open>registerMessageHandler\<close> it logs and returns nothing
  (no cleanup); otherwise it registers both callbacks and returns the cleanup, which
  closes over the props of this render.
\<close>

definition register_effect :: "props \<Rightarrow> world \<Rightarrow> world" where
  "register_effect p w =
     (if \<not> registerMessageHandler p then
        console_error (js ''registerMessageHandler is not provided'') [] w
      else
        (adapter_register key_query_knowledge OnQueryResponse
           (adapter_register key_get_routes OnRoutes w))\<lparr>effect_cleanup := Some p\<rparr>)"

definition cleanup :: "props \<Rightarrow> world \<Rightarrow> world" where
  "cleanup p w =
     (if deregisterMessageHandler p then
        adapter_deregister key_query_knowledge (adapter_deregister key_get_routes w)
      else console_error (js ''deregisterMessageHandler is not provided'') [] w)"

text \<open>Mounting sets the three cells to their initial values and runs both effects.\<close>

definition mount :: "props \<Rightarrow> world \<Rightarrow> world" where
  "mount p w =
     response_effect
       (register_effect p
          (w\<lparr>mounted := True, effect_cleanup := None,
             knowledgeQueryInput := [], knowledgeLayerRoutes := None,
             knowledgeQueryResponse := []\<rparr>))"

text \<open>
  Unmounting runs the cleanup of the first effect, when that effect returned one, with
  the props that cleanup closed over; the props of the last render play no part.
\<close>

definition unmount :: "world \<Rightarrow> world" where
  "unmount w =
     (let w1 = (case effect_cleanup w of None \<Rightarrow> w | Some p0 \<Rightarrow> cleanup p0 w)
      in w1\<lparr>mounted := False, effect_cleanup := None\<rparr>)"


subsection \<open>The operations behind the buttons\<close>

definition getKnowledgeRoutes :: "props \<Rightarrow> world \<Rightarrow> world" where
  "getKnowledgeRoutes p w =
     (if \<not> sendMessage p then console_error (js ''websocket is not connected'') [] w
      else adapter_send (js ''knowledge_layer'') (js ''get_routes'') None w)"

definition queryKnowledge :: "props \<Rightarrow> world \<Rightarrow> world" where
  "queryKnowledge p w =
     (if \<not> sendMessage p then console_error (js ''WebSocket is not connected'') [] w
      else if trim (knowledgeQueryInput w) = [] then
        console_error (js ''Knowledge query input is empty'') [] w
      else
        adapter_send (js ''knowledge_layer'') (js ''query_knowledge'')
          (Some (trim (knowledgeQueryInput w))) w)"

text \<open>
  The fallback copy: a new \<open>textarea\<close> holding the text is appended to the body and
  selected, \<open>execCommand("copy")\<close> runs inside \<open>try\<close>/\<open>catch\<close>, and the
  \<open>textarea\<close> is removed after the \<open>try\<close> statement.
\<close>

definition fallback_copy :: "browser \<Rightarrow> jsstring \<Rightarrow> world \<Rightarrow> world" where
  "fallback_copy b dot w =
     (let textarea = \<lparr>node_id = next_node_id w, node_tag = js ''textarea'',
                       node_value = dot\<rparr>;
          w1 = w\<lparr>next_node_id := Suc (next_node_id w),
                 body := body w @ [textarea],
                 dom_log := dom_log w @ [AppendChild (node_id textarea),
                                         Select (node_id textarea)]\<rparr>;
          w2 = w1\<lparr>dom_log := dom_log w1 @ [ExecCommand (js ''copy'')]\<rparr>;
          w3 = (case execCommand_outcome b of
                  ExecReturns ok \<Rightarrow>
                    console_log (js ''DOT graph copied to clipboard!'') []
                      (if ok then w2\<lparr>clipboard := Some (node_value textarea)\<rparr> else w2)
                | ExecThrows \<Rightarrow>
                    console_error (js ''Failed to copy DOT graph:'') [ArgErr] w2)
      in w3\<lparr>body := filter (\<lambda>n. node_id n \<noteq> node_id textarea) (body w3),
            dom_log := dom_log w3 @ [RemoveChild (node_id textarea)]\<rparr>)"

text \<open>
  With \<open>navigator.clipboard\<close> the text is written asynchronously; the \<open>then\<close>
  and \<open>catch\<close> callbacks only log.
\<close>

definition copy_to_clipboard :: "browser \<Rightarrow> jsstring \<Rightarrow> world \<Rightarrow> world" where
  "copy_to_clipboard b dot w =
     (if has_clipboard b then
        (if writeText_resolves b then
           console_log (js ''DOT graph copied to clipboard!'') [] (w\<lparr>clipboard := Some dot\<rparr>)
         else console_error (js ''Failed to copy DOT graph:'') [ArgErr] w)
      else fallback_copy b dot w)"

definition generateRouteDotGraph :: "browser \<Rightarrow> world \<Rightarrow> world" where
  "generateRouteDotGraph b w =
     (case knowledgeLayerRoutes w of
        None \<Rightarrow> console_error (js ''Knowledge Layer Routes are not available'') [] w
      | Some rs \<Rightarrow>
          (let g = build_graph rs;
               w1 = console_log (js ''Explainer Graph Nodes:'')
                      [ArgNodes (explainerGraphNodes g)] w;
               w2 = console_log (js ''Explainer Graph Edges:'')
                      [ArgEdges (explainerGraphEdges g)] w1
           in copy_to_clipboard b (serialize g) w2))"


subsection \<open>What is rendered, and the events of a session\<close>

record view =
  generate_disabled :: bool
  input_value :: jsstring
  response_text :: jsstring

definition render :: "world \<Rightarrow> view" where
  "render w =
     \<lparr>generate_disabled = (knowledgeLayerRoutes w = None),
      input_value = knowledgeQueryInput w,
      response_text = knowledgeQueryResponse w\<rparr>"

datatype event =
    Mount
  | Unmount
  | ClickGetRoutes
  | ClickGenerate browser
  | InputChange jsstring
  | ClickQuery
  | Inbound key payload

text \<open>
  Handing a payload to a callback. Each action has one payload type in the message
  contract; a payload of the other type is outside the contract and is not modelled
  (the world is returned as it is).
\<close>

fun invoke :: "callback \<Rightarrow> payload \<Rightarrow> world \<Rightarrow> world" where
  "invoke OnRoutes (RoutesPayload response) w = on_routes response w"
| "invoke OnQueryResponse (TextPayload response) w = on_query_response response w"
| "invoke _ _ w = w"

text \<open>
  Modelled from the spec: delivery by the channel adapter, to the callback registered
  for the key; with no callback the message is dropped.
\<close>

definition deliver :: "key \<Rightarrow> payload \<Rightarrow> world \<Rightarrow> world" where
  "deliver k pl w = (case registry w k of None \<Rightarrow> w | Some cb \<Rightarrow> invoke cb pl w)"

text \<open>
  One event, with the props of the render it happens in. The buttons and the input
  exist only while the component is mounted, and the second button is disabled while
  there are no routes. The click handlers are those of the latest render and so read
  its props.
\<close>

fun step :: "props \<Rightarrow> event \<Rightarrow> world \<Rightarrow> world" where
  "step p Mount w = (if mounted w then w else mount p w)"
| "step p Unmount w = (if mounted w then unmount w else w)"
| "step p ClickGetRoutes w = (if mounted w then getKnowledgeRoutes p w else w)"
| "step p (ClickGenerate b) w =
     (if mounted w \<and> \<not> generate_disabled (render w) then generateRouteDotGraph b w else w)"
| "step p (InputChange v) w = (if mounted w then w\<lparr>knowledgeQueryInput := v\<rparr> else w)"
| "step p ClickQuery w = (if mounted w then queryKnowledge p w else w)"
| "step p (Inbound k pl) w = deliver k pl w"

definition run :: "props \<Rightarrow> event list \<Rightarrow> world \<Rightarrow> world" where
  "run p es w = fold (step p) es w"

text \<open>A history in which the parent may hand the component other props at each render.\<close>

definition session :: "(props \<times> event) list \<Rightarrow> world \<Rightarrow> world" where
  "session pes w = fold (\<lambda>(p, e). step p e) pes w"


section \<open>Graph construction and serialisation: proofs\<close>

lemmas effect_defs = console_log_def console_error_def adapter_send_def adapter_register_def
  adapter_deregister_def response_effect_def


lemma fold_append_lines: "fold (\<lambda>x acc. acc @ f x) xs a = a @ concat (map f xs)"
  by (induction xs arbitrary: a) simp_all

lemma fold_add_related_nodes:
  "explainerGraphNodes (fold (add_related r) rels g) = explainerGraphNodes g"
  by (induction rels arbitrary: g) (simp_all add: add_related_def)

lemma fold_add_related_edges:
  "explainerGraphEdges (fold (add_related r) rels g) =
     explainerGraphEdges g
     @ map (\<lambda>rr. \<lparr>source = pattern r, target = related_pattern rr,
                  label = relationship rr\<rparr>) rels"
  by (induction rels arbitrary: g) (simp_all add: add_related_def push_def)

lemma fold_add_route_nodes:
  "explainerGraphNodes (fold add_route routes g) =
     explainerGraphNodes g @ map pattern routes"
  by (induction routes arbitrary: g)
     (simp_all add: add_route_def forEach_def push_def fold_add_related_nodes)

lemma fold_add_route_edges:
  "explainerGraphEdges (fold add_route routes g) =
     explainerGraphEdges g
     @ concat (map (\<lambda>r. map (\<lambda>rr. \<lparr>source = pattern r, target = related_pattern rr,
                                    label = relationship rr\<rparr>) (related r)) routes)"
  by (induction routes arbitrary: g)
     (simp_all add: add_route_def forEach_def fold_add_related_edges)

lemma serialize_layout:
  "serialize g = spec_dot_text (explainerGraphNodes g) (explainerGraphEdges g)"
  by (simp add: serialize_def spec_dot_text_def forEach_def Let_def fold_append_lines
      node_line_def edge_line_def)

text \<open>
  C2. The graph built from a route set has one node per top-level route, in input order
  and with duplicates kept, and one edge per related entry, ordered by route and then by
  related entry, each edge carrying the route's pattern, the related pattern and the
  relationship. Hence the node count is the number of routes and the edge count is the
  sum of the lengths of the related sequences.
\<close>

theorem build_graph_nodes_edges:
  "explainerGraphNodes (build_graph rs) = map pattern (explainer_routes rs)
   \<and> explainerGraphEdges (build_graph rs) =
       concat (map (\<lambda>r. map (\<lambda>rr. \<lparr>source = pattern r, target = related_pattern rr,
                                      label = relationship rr\<rparr>) (related r))
                 (explainer_routes rs))
   \<and> length (explainerGraphNodes (build_graph rs)) = length (explainer_routes rs)
   \<and> length (explainerGraphEdges (build_graph rs)) =
       sum_list (map (\<lambda>r. length (related r)) (explainer_routes rs))"
proof -
  have n: "explainerGraphNodes (build_graph rs) = map pattern (explainer_routes rs)"
    by (simp add: build_graph_def forEach_def fold_add_route_nodes)
  have e: "explainerGraphEdges (build_graph rs) =
       concat (map (\<lambda>r. map (\<lambda>rr. \<lparr>source = pattern r, target = related_pattern rr,
                                      label = relationship rr\<rparr>) (related r))
                 (explainer_routes rs))"
    by (simp add: build_graph_def forEach_def fold_add_route_edges)
  have le: "length (explainerGraphEdges (build_graph rs)) =
       sum_list (map (\<lambda>r. length (related r)) (explainer_routes rs))"
    unfolding e by (simp add: length_concat comp_def)
  from n e le show ?thesis by simp
qed

text \<open>
  C1. The DOT text of a graph is the line \<open>digraph KnowledgeRoutes {\<close>, one line per
  node in the order of the node array, one line per edge in the order of the edge array,
  and the closing line; this holds for the graph of every route set. The empty route set
  gives the opening and the closing line only. Patterns and relationships are copied
  between quote characters as they are, a quote character inside them included. With
  \<open>navigator.clipboard\<close> this text is what is written to the clipboard.
\<close>

theorem dot_text_layout:
  \<open>serialize g = spec_dot_text (explainerGraphNodes g) (explainerGraphEdges g)
   \<and> serialize (build_graph rs) =
       spec_dot_text (map pattern (explainer_routes rs))
         (concat (map (\<lambda>r. map (\<lambda>rr. \<lparr>source = pattern r, target = related_pattern rr,
                                        label = relationship rr\<rparr>) (related r))
                   (explainer_routes rs)))
   \<and> serialize (build_graph \<lparr>explainer_routes = []\<rparr>) = js ''digraph KnowledgeRoutes {\<newline>}\<newline>''
   \<and> serialize (build_graph \<lparr>explainer_routes =
         [\<lparr>pattern = js ''/a'',
           related = [\<lparr>related_pattern = js ''/b'', relationship = js ''depends_on''\<rparr>]\<rparr>]\<rparr>) =
       js ''digraph KnowledgeRoutes {\<newline>  "/a";\<newline>  "/a" -> "/b" [label="depends_on"];\<newline>}\<newline>''
   \<and> serialize (build_graph \<lparr>explainer_routes = [\<lparr>pattern = js ''a"b'', related = []\<rparr>]\<rparr>) =
       js ''digraph KnowledgeRoutes {\<newline>  "a"b";\<newline>}\<newline>''
   \<and> clipboard (generateRouteDotGraph
         \<lparr>has_clipboard = True, writeText_resolves = True, execCommand_outcome = x\<rparr>
         (w\<lparr>knowledgeLayerRoutes := Some rs\<rparr>)) = Some (serialize (build_graph rs))\<close>
proof -
  have a: "serialize g = spec_dot_text (explainerGraphNodes g) (explainerGraphEdges g)" for g
    by (rule serialize_layout)
  have b: "explainerGraphNodes (build_graph rs) = map pattern (explainer_routes rs)" for rs
    by (simp add: build_graph_def forEach_def fold_add_route_nodes)
  have c: "explainerGraphEdges (build_graph rs) =
     concat (map (\<lambda>r. map (\<lambda>rr. \<lparr>source = pattern r, target = related_pattern rr,
                                        label = relationship rr\<rparr>) (related r))
                   (explainer_routes rs))" for rs
    by (simp add: build_graph_def forEach_def fold_add_route_edges)
  have d: "serialize (build_graph \<lparr>explainer_routes = []\<rparr>) = js ''digraph KnowledgeRoutes {\<newline>}\<newline>''"
    by (simp add: a b c spec_dot_text_def js_def)
  have e: \<open>serialize (build_graph \<lparr>explainer_routes =
         [\<lparr>pattern = js ''/a'',
           related = [\<lparr>related_pattern = js ''/b'', relationship = js ''depends_on''\<rparr>]\<rparr>]\<rparr>) =
       js ''digraph KnowledgeRoutes {\<newline>  "/a";\<newline>  "/a" -> "/b" [label="depends_on"];\<newline>}\<newline>''\<close>
    by (simp add: a b c spec_dot_text_def js_def)
  have f: \<open>serialize (build_graph \<lparr>explainer_routes = [\<lparr>pattern = js ''a"b'', related = []\<rparr>]\<rparr>) =
       js ''digraph KnowledgeRoutes {\<newline>  "a"b";\<newline>}\<newline>''\<close>
    by (simp add: a b c spec_dot_text_def js_def)
  have g: "clipboard (generateRouteDotGraph
         \<lparr>has_clipboard = True, writeText_resolves = True, execCommand_outcome = x\<rparr>
         (w\<lparr>knowledgeLayerRoutes := Some rs\<rparr>)) = Some (serialize (build_graph rs))"
    by (simp add: generateRouteDotGraph_def copy_to_clipboard_def Let_def effect_defs)
  show ?thesis
    using a b c d e f g by simp
qed


section \<open>Graph generation without routes\<close>

text \<open>
  C4. When no routes have been received, \<open>generateRouteDotGraph\<close> reports the
  diagnostic and does nothing else: the world is the one before with that one console
  entry added, so no graph is logged, nothing is written to the clipboard and no cell
  changes.
\<close>

theorem unavailable_routes_diagnostic:
  "knowledgeLayerRoutes w = None \<Longrightarrow>
     generateRouteDotGraph b w =
       w\<lparr>console := console w @ [ConsoleError (js ''Knowledge Layer Routes are not available'') []]\<rparr>"
  by (simp add: generateRouteDotGraph_def effect_defs)

theorem unavailable_routes_diagnostic_witness:
  "knowledgeLayerRoutes init_world = None
   \<and> generateRouteDotGraph
       \<lparr>has_clipboard = True, writeText_resolves = True, execCommand_outcome = ExecReturns True\<rparr>
       init_world =
     init_world\<lparr>console := [ConsoleError (js ''Knowledge Layer Routes are not available'') []]\<rparr>
   \<and> clipboard (generateRouteDotGraph
       \<lparr>has_clipboard = True, writeText_resolves = True, execCommand_outcome = ExecReturns True\<rparr>
       init_world) = None"
proof -
  have h: "knowledgeLayerRoutes init_world = None" by (simp add: init_world_def)
  show ?thesis
    using h unavailable_routes_diagnostic [OF h,
      of "\<lparr>has_clipboard = True, writeText_resolves = True, execCommand_outcome = ExecReturns True\<rparr>"]
    by (simp add: init_world_def)
qed


section \<open>Submitting a query\<close>

text \<open>
  C3, as stated, at a concrete input. Without \<open>sendMessage\<close> the query
  \<open>abc\<close>, whose trim is not empty, sends no message; and the blank query
  \<open>"   "\<close> reports that the socket is not connected, not that the input is empty.
\<close>

theorem query_without_channel_counterexample:
  "trim (js ''abc'') = js ''abc''
   \<and> sent (queryKnowledge
         \<lparr>sendMessage = False, registerMessageHandler = True, deregisterMessageHandler = True\<rparr>
         (init_world\<lparr>mounted := True, knowledgeQueryInput := js ''abc''\<rparr>)) = []
   \<and> trim (js ''   '') = []
   \<and> console (queryKnowledge
         \<lparr>sendMessage = False, registerMessageHandler = True, deregisterMessageHandler = True\<rparr>
         (init_world\<lparr>mounted := True, knowledgeQueryInput := js ''   ''\<rparr>)) =
       [ConsoleError (js ''WebSocket is not connected'') []]"
  by (simp add: queryKnowledge_def init_world_def effect_defs trim_def is_ws_def js_def)

text \<open>
  C3, amended. When \<open>sendMessage\<close> is supplied: a query whose trim is empty sends
  no message, leaves the input text and the response as they are and reports that the
  input is empty (nothing else changes); a query whose trim is not empty sends exactly
  one message to (knowledge_layer, query_knowledge) with the trimmed text as payload and
  changes nothing else. When \<open>sendMessage\<close> is not supplied, whatever the text,
  nothing is sent and the only effect is the diagnostic that the socket is not connected.
\<close>

theorem query_submit_with_channel:
  "(sendMessage p \<and> trim (knowledgeQueryInput w) = [] \<longrightarrow>
        queryKnowledge p w =
          w\<lparr>console := console w @ [ConsoleError (js ''Knowledge query input is empty'') []]\<rparr>
        \<and> sent (queryKnowledge p w) = sent w
        \<and> knowledgeQueryInput (queryKnowledge p w) = knowledgeQueryInput w
        \<and> knowledgeQueryResponse (queryKnowledge p w) = knowledgeQueryResponse w)
   \<and> (sendMessage p \<and> trim (knowledgeQueryInput w) \<noteq> [] \<longrightarrow>
        queryKnowledge p w =
          w\<lparr>sent := sent w @
               [\<lparr>msg_namespace = js ''knowledge_layer'', msg_action = js ''query_knowledge'',
                 msg_payload = Some (trim (knowledgeQueryInput w))\<rparr>]\<rparr>)
   \<and> (\<not> sendMessage p \<longrightarrow>
        queryKnowledge p w =
          w\<lparr>console := console w @ [ConsoleError (js ''WebSocket is not connected'') []]\<rparr>)"
  by (simp add: queryKnowledge_def effect_defs)

theorem query_submit_with_channel_witness:
  "sendMessage \<lparr>sendMessage = True, registerMessageHandler = True, deregisterMessageHandler = True\<rparr>
   \<and> trim (js '' /a  '') = js ''/a''
   \<and> sent (queryKnowledge
         \<lparr>sendMessage = True, registerMessageHandler = True, deregisterMessageHandler = True\<rparr>
         (init_world\<lparr>mounted := True, knowledgeQueryInput := js '' /a  ''\<rparr>)) =
       [\<lparr>msg_namespace = js ''knowledge_layer'', msg_action = js ''query_knowledge'',
         msg_payload = Some (js ''/a'')\<rparr>]
   \<and> trim (js ''  '') = []
   \<and> sent (queryKnowledge
         \<lparr>sendMessage = True, registerMessageHandler = True, deregisterMessageHandler = True\<rparr>
         (init_world\<lparr>mounted := True, knowledgeQueryInput := js ''  ''\<rparr>)) = []
   \<and> console (queryKnowledge
         \<lparr>sendMessage = True, registerMessageHandler = True, deregisterMessageHandler = True\<rparr>
         (init_world\<lparr>mounted := True, knowledgeQueryInput := js ''  ''\<rparr>)) =
       [ConsoleError (js ''Knowledge query input is empty'') []]
   \<and> sent (queryKnowledge
         \<lparr>sendMessage = False, registerMessageHandler = True, deregisterMessageHandler = True\<rparr>
         (init_world\<lparr>mounted := True, knowledgeQueryInput := js '' /a  ''\<rparr>)) = []"
proof -
  let ?p = "\<lparr>sendMessage = True, registerMessageHandler = True, deregisterMessageHandler = True\<rparr>"
  let ?q = "\<lparr>sendMessage = False, registerMessageHandler = True, deregisterMessageHandler = True\<rparr>"
  have t1: "trim (js '' /a  '') = js ''/a''" by (simp add: trim_def is_ws_def js_def)
  have t2: "trim (js ''  '') = []" by (simp add: trim_def is_ws_def js_def)
  have n: "js ''/a'' \<noteq> []" by (simp add: js_def)
  show ?thesis
    using t1 t2 n
      query_submit_with_channel [of ?p "init_world\<lparr>mounted := True, knowledgeQueryInput := js '' /a  ''\<rparr>"]
      query_submit_with_channel [of ?p "init_world\<lparr>mounted := True, knowledgeQueryInput := js ''  ''\<rparr>"]
      query_submit_with_channel [of ?q "init_world\<lparr>mounted := True, knowledgeQueryInput := js '' /a  ''\<rparr>"]
    by (simp add: init_world_def)
qed


section \<open>The clipboard fallback\<close>

lemma fallback_copy_dom:
  "dom_log (fallback_copy b dot w) =
     dom_log w @ [AppendChild (next_node_id w), Select (next_node_id w),
                  ExecCommand (js ''copy''), RemoveChild (next_node_id w)]
   \<and> body (fallback_copy b dot w) = filter (\<lambda>n. node_id n \<noteq> next_node_id w) (body w)"
  by (cases "execCommand_outcome b") (simp_all add: fallback_copy_def Let_def effect_defs)

lemma filter_fresh_id:
  "\<forall>n\<in>set ns. node_id n < (i::nat) \<Longrightarrow> filter (\<lambda>n. node_id n \<noteq> i) ns = ns"
  by (induction ns) auto

text \<open>
  C8. In the fallback (no \<open>navigator.clipboard\<close>) the operations on the document
  are exactly: append the new textarea, select it, run the copy command, remove the
  textarea, whether the copy command returns or throws. Afterwards no child of the body
  is that textarea, and the body is what it was before when the textarea's identity was
  new.
\<close>

theorem fallback_textarea_removed:
  "\<not> has_clipboard b \<and> knowledgeLayerRoutes w = Some rs \<longrightarrow>
     dom_log (generateRouteDotGraph b w) =
       dom_log w @ [AppendChild (next_node_id w), Select (next_node_id w),
                    ExecCommand (js ''copy''), RemoveChild (next_node_id w)]
     \<and> next_node_id w \<notin> node_id ` set (body (generateRouteDotGraph b w))
     \<and> ((\<forall>n\<in>set (body w). node_id n < next_node_id w) \<longrightarrow>
          body (generateRouteDotGraph b w) = body w)"
proof (intro impI, elim conjE)
  assume nc: "\<not> has_clipboard b" and rs: "knowledgeLayerRoutes w = Some rs"
  define w2 where "w2 = console_log (js ''Explainer Graph Edges:'')
       [ArgEdges (explainerGraphEdges (build_graph rs))]
       (console_log (js ''Explainer Graph Nodes:'')
          [ArgNodes (explainerGraphNodes (build_graph rs))] w)"
  have same: "dom_log w2 = dom_log w" "body w2 = body w" "next_node_id w2 = next_node_id w"
    by (simp_all add: w2_def effect_defs)
  have g: "generateRouteDotGraph b w = fallback_copy b (serialize (build_graph rs)) w2"
    using nc rs by (simp add: generateRouteDotGraph_def copy_to_clipboard_def Let_def w2_def)
  have d: "dom_log (generateRouteDotGraph b w) =
       dom_log w @ [AppendChild (next_node_id w), Select (next_node_id w),
                    ExecCommand (js ''copy''), RemoveChild (next_node_id w)]"
    using fallback_copy_dom [of b "serialize (build_graph rs)" w2] by (simp add: g same)
  have bd: "body (generateRouteDotGraph b w) = filter (\<lambda>n. node_id n \<noteq> next_node_id w) (body w)"
    using fallback_copy_dom [of b "serialize (build_graph rs)" w2] by (simp add: g same)
  have gone: "next_node_id w \<notin> node_id ` set (body (generateRouteDotGraph b w))"
    unfolding bd by auto
  have restored: "(\<forall>n\<in>set (body w). node_id n < next_node_id w) \<longrightarrow>
          body (generateRouteDotGraph b w) = body w"
    unfolding bd by (simp add: filter_fresh_id)
  from d gone restored
  show "dom_log (generateRouteDotGraph b w) =
       dom_log w @ [AppendChild (next_node_id w), Select (next_node_id w),
                    ExecCommand (js ''copy''), RemoveChild (next_node_id w)]
     \<and> next_node_id w \<notin> node_id ` set (body (generateRouteDotGraph b w))
     \<and> ((\<forall>n\<in>set (body w). node_id n < next_node_id w) \<longrightarrow>
          body (generateRouteDotGraph b w) = body w)"
    by simp
qed

theorem fallback_textarea_removed_witness:
  "dom_log (generateRouteDotGraph
      \<lparr>has_clipboard = False, writeText_resolves = False, execCommand_outcome = ExecThrows\<rparr>
      (init_world\<lparr>mounted := True, knowledgeLayerRoutes := Some \<lparr>explainer_routes = []\<rparr>,
                  body := [\<lparr>node_id = 0, node_tag = js ''div'', node_value = []\<rparr>],
                  next_node_id := 1\<rparr>)) =
     [AppendChild 1, Select 1, ExecCommand (js ''copy''), RemoveChild 1]
   \<and> body (generateRouteDotGraph
      \<lparr>has_clipboard = False, writeText_resolves = False, execCommand_outcome = ExecThrows\<rparr>
      (init_world\<lparr>mounted := True, knowledgeLayerRoutes := Some \<lparr>explainer_routes = []\<rparr>,
                  body := [\<lparr>node_id = 0, node_tag = js ''div'', node_value = []\<rparr>],
                  next_node_id := 1\<rparr>)) =
     [\<lparr>node_id = 0, node_tag = js ''div'', node_value = []\<rparr>]"
  using fallback_textarea_removed
    [of "\<lparr>has_clipboard = False, writeText_resolves = False, execCommand_outcome = ExecThrows\<rparr>"
        "init_world\<lparr>mounted := True, knowledgeLayerRoutes := Some \<lparr>explainer_routes = []\<rparr>,
                  body := [\<lparr>node_id = 0, node_tag = js ''div'', node_value = []\<rparr>],
                  next_node_id := 1\<rparr>"
        "\<lparr>explainer_routes = []\<rparr>"]
  by (simp add: init_world_def)


section \<open>What each operation leaves alone\<close>

lemma fallback_copy_frame:
  "mounted (fallback_copy b dot w) = mounted w
   \<and> effect_cleanup (fallback_copy b dot w) = effect_cleanup w
   \<and> knowledgeQueryInput (fallback_copy b dot w) = knowledgeQueryInput w
   \<and> knowledgeLayerRoutes (fallback_copy b dot w) = knowledgeLayerRoutes w
   \<and> knowledgeQueryResponse (fallback_copy b dot w) = knowledgeQueryResponse w
   \<and> sent (fallback_copy b dot w) = sent w
   \<and> registry (fallback_copy b dot w) = registry w
   \<and> deregistered (fallback_copy b dot w) = deregistered w"
  by (cases "execCommand_outcome b") (simp_all add: fallback_copy_def Let_def effect_defs)

lemma copy_to_clipboard_frame:
  "mounted (copy_to_clipboard b dot w) = mounted w
   \<and> effect_cleanup (copy_to_clipboard b dot w) = effect_cleanup w
   \<and> knowledgeQueryInput (copy_to_clipboard b dot w) = knowledgeQueryInput w
   \<and> knowledgeLayerRoutes (copy_to_clipboard b dot w) = knowledgeLayerRoutes w
   \<and> knowledgeQueryResponse (copy_to_clipboard b dot w) = knowledgeQueryResponse w
   \<and> sent (copy_to_clipboard b dot w) = sent w
   \<and> registry (copy_to_clipboard b dot w) = registry w
   \<and> deregistered (copy_to_clipboard b dot w) = deregistered w"
  using fallback_copy_frame [of b dot w]
  by (simp add: copy_to_clipboard_def effect_defs)

lemma generateRouteDotGraph_frame:
  "mounted (generateRouteDotGraph b w) = mounted w
   \<and> effect_cleanup (generateRouteDotGraph b w) = effect_cleanup w
   \<and> knowledgeQueryInput (generateRouteDotGraph b w) = knowledgeQueryInput w
   \<and> knowledgeLayerRoutes (generateRouteDotGraph b w) = knowledgeLayerRoutes w
   \<and> knowledgeQueryResponse (generateRouteDotGraph b w) = knowledgeQueryResponse w
   \<and> sent (generateRouteDotGraph b w) = sent w
   \<and> registry (generateRouteDotGraph b w) = registry w
   \<and> deregistered (generateRouteDotGraph b w) = deregistered w"
proof (cases "knowledgeLayerRoutes w")
  case None
  then show ?thesis by (simp add: generateRouteDotGraph_def effect_defs)
next
  case (Some rs)
  define w2 where "w2 = console_log (js ''Explainer Graph Edges:'')
       [ArgEdges (explainerGraphEdges (build_graph rs))]
       (console_log (js ''Explainer Graph Nodes:'')
          [ArgNodes (explainerGraphNodes (build_graph rs))] w)"
  have g: "generateRouteDotGraph b w = copy_to_clipboard b (serialize (build_graph rs)) w2"
    using Some by (simp add: generateRouteDotGraph_def Let_def w2_def)
  show ?thesis
    unfolding g using copy_to_clipboard_frame [of b "serialize (build_graph rs)" w2]
    by (simp add: w2_def effect_defs)
qed

lemma invoke_frame:
  "mounted (invoke cb pl w) = mounted w
   \<and> effect_cleanup (invoke cb pl w) = effect_cleanup w
   \<and> knowledgeQueryInput (invoke cb pl w) = knowledgeQueryInput w
   \<and> sent (invoke cb pl w) = sent w
   \<and> registry (invoke cb pl w) = registry w
   \<and> deregistered (invoke cb pl w) = deregistered w"
  by (cases cb; cases pl)
     (simp_all add: on_routes_def on_query_response_def Let_def effect_defs)

lemma deliver_frame:
  "mounted (deliver k pl w) = mounted w
   \<and> effect_cleanup (deliver k pl w) = effect_cleanup w
   \<and> knowledgeQueryInput (deliver k pl w) = knowledgeQueryInput w
   \<and> sent (deliver k pl w) = sent w
   \<and> registry (deliver k pl w) = registry w
   \<and> deregistered (deliver k pl w) = deregistered w"
  using invoke_frame [of _ pl w]
  by (cases "registry w k") (simp_all add: deliver_def)

lemma unmount_frame:
  "\<not> mounted (unmount w) \<and> effect_cleanup (unmount w) = None
   \<and> knowledgeQueryInput (unmount w) = knowledgeQueryInput w
   \<and> knowledgeLayerRoutes (unmount w) = knowledgeLayerRoutes w
   \<and> knowledgeQueryResponse (unmount w) = knowledgeQueryResponse w
   \<and> sent (unmount w) = sent w
   \<and> (\<exists>xs. console (unmount w) = console w @ xs)"
  by (cases "effect_cleanup w") (simp_all add: unmount_def cleanup_def Let_def effect_defs)

lemma unmount_registry:
  "registry (unmount w) k = Some cb \<Longrightarrow> registry w k = Some cb"
  by (cases "effect_cleanup w")
     (simp_all add: unmount_def cleanup_def Let_def effect_defs split: if_splits)


section \<open>The query input\<close>

text \<open>
  C10. Submitting a query leaves the stored input text as it is: the trimmed text goes
  into the message only, and the input field still shows the untrimmed text. In a
  mounted component a keystroke stores the field's new value, and no other event changes
  the stored input text.
\<close>

theorem query_input_changed_by_keystroke_only:
  "knowledgeQueryInput (queryKnowledge p w) = knowledgeQueryInput w
   \<and> input_value (render (queryKnowledge p w)) = knowledgeQueryInput w
   \<and> (mounted w \<longrightarrow> knowledgeQueryInput (step p (InputChange v) w) = v)
   \<and> (mounted w \<and> (\<forall>v. e \<noteq> InputChange v) \<longrightarrow>
        knowledgeQueryInput (step p e w) = knowledgeQueryInput w)"
proof -
  have q: "knowledgeQueryInput (queryKnowledge p w) = knowledgeQueryInput w"
    by (simp add: queryKnowledge_def effect_defs)
  have r: "input_value (render (queryKnowledge p w)) = knowledgeQueryInput w"
    by (simp add: render_def q)
  have k: "mounted w \<longrightarrow> knowledgeQueryInput (step p (InputChange v) w) = v"
    by simp
  have o: "knowledgeQueryInput (step p e w) = knowledgeQueryInput w"
    if m: "mounted w" and e: "\<forall>v. e \<noteq> InputChange v"
  proof (cases e)
    case Mount
    then show ?thesis using m by simp
  next
    case Unmount
    then show ?thesis using unmount_frame [of w] by simp
  next
    case ClickGetRoutes
    then show ?thesis by (simp add: getKnowledgeRoutes_def effect_defs)
  next
    case (ClickGenerate b)
    then show ?thesis using generateRouteDotGraph_frame [of b w] by simp
  next
    case (InputChange v)
    then show ?thesis using e by simp
  next
    case ClickQuery
    then show ?thesis using q by simp
  next
    case (Inbound k pl)
    then show ?thesis using deliver_frame [of k pl w] by simp
  qed
  from q r k o show ?thesis by blast
qed

theorem query_input_changed_by_keystroke_only_witness:
  "knowledgeQueryInput
     (run \<lparr>sendMessage = True, registerMessageHandler = True, deregisterMessageHandler = True\<rparr>
        [Mount, InputChange (js '' /a ''), ClickQuery] init_world) = js '' /a ''
   \<and> sent
     (run \<lparr>sendMessage = True, registerMessageHandler = True, deregisterMessageHandler = True\<rparr>
        [Mount, InputChange (js '' /a ''), ClickQuery] init_world) =
     [\<lparr>msg_namespace = js ''knowledge_layer'', msg_action = js ''query_knowledge'',
       msg_payload = Some (js ''/a'')\<rparr>]"
proof -
  let ?p = "\<lparr>sendMessage = True, registerMessageHandler = True, deregisterMessageHandler = True\<rparr>"
  let ?w1 = "step ?p (InputChange (js '' /a '')) (mount ?p init_world)"
  have m0: "\<not> mounted init_world" by (simp add: init_world_def)
  have m1: "mounted (mount ?p init_world)"
    by (simp add: mount_def register_effect_def effect_defs)
  have i1: "knowledgeQueryInput ?w1 = js '' /a ''"
    using m1 query_input_changed_by_keystroke_only [of ?p "mount ?p init_world" "js '' /a ''" ClickQuery]
    by blast
  have m2: "mounted ?w1" using m1 by simp
  have i2: "knowledgeQueryInput (step ?p ClickQuery ?w1) = js '' /a ''"
    using m2 i1 query_input_changed_by_keystroke_only [of ?p ?w1 "[]" ClickQuery]
    by simp
  have t: "trim (js '' /a '') = js ''/a''" by (simp add: trim_def is_ws_def js_def)
  have ne: "js ''/a'' \<noteq> []" by (simp add: js_def)
  have s0: "sent ?w1 = []"
    using m1 by (simp add: mount_def register_effect_def effect_defs init_world_def)
  have s: "sent (step ?p ClickQuery ?w1) =
     [\<lparr>msg_namespace = js ''knowledge_layer'', msg_action = js ''query_knowledge'',
       msg_payload = Some (js ''/a'')\<rparr>]"
    using m2 i1 t ne s0 by (simp add: queryKnowledge_def effect_defs)
  show ?thesis using m0 i2 s by (simp add: run_def)
qed


section \<open>The response before any answer\<close>

lemma keys_differ: "key_get_routes \<noteq> key_query_knowledge"
  by (simp add: key_get_routes_def key_query_knowledge_def js_def)

lemma step_no_answer:
  assumes inv: "knowledgeQueryResponse w = []"
      "\<forall>k. registry w k = Some OnQueryResponse \<longrightarrow> k = key_query_knowledge"
    and e: "\<forall>k pl. e = Inbound k pl \<longrightarrow> k \<noteq> key_query_knowledge"
  shows "knowledgeQueryResponse (step p e w) = []
     \<and> (\<forall>k. registry (step p e w) k = Some OnQueryResponse \<longrightarrow> k = key_query_knowledge)"
proof (cases e)
  case Mount
  then show ?thesis using inv
    by (auto simp: mount_def register_effect_def effect_defs keys_differ split: if_splits)
next
  case Unmount
  show ?thesis
  proof (cases "mounted w")
    case True
    have r: "knowledgeQueryResponse (unmount w) = []"
      using inv(1) unmount_frame [of w] by simp
    have k: "\<forall>k. registry (unmount w) k = Some OnQueryResponse \<longrightarrow> k = key_query_knowledge"
      using inv(2) unmount_registry [of w] by blast
    from r k show ?thesis using Unmount True by simp
  next
    case False
    then show ?thesis using Unmount inv by simp
  qed
next
  case ClickGetRoutes
  then show ?thesis using inv by (simp add: getKnowledgeRoutes_def effect_defs)
next
  case (ClickGenerate b)
  then show ?thesis using inv generateRouteDotGraph_frame [of b w] by simp
next
  case (InputChange v)
  then show ?thesis using inv by simp
next
  case ClickQuery
  then show ?thesis using inv by (simp add: queryKnowledge_def effect_defs)
next
  case (Inbound k pl)
  with e have k: "k \<noteq> key_query_knowledge" by simp
  show ?thesis
  proof (cases "registry w k")
    case None
    then show ?thesis using Inbound inv by (simp add: deliver_def)
  next
    case (Some cb)
    from Some inv(2) k have cb: "cb = OnRoutes" by (cases cb) blast+
    show ?thesis using Inbound Some cb inv
      by (cases pl) (simp_all add: deliver_def on_routes_def Let_def effect_defs)
  qed
qed

lemma run_no_answer:
  "knowledgeQueryResponse w = [] \<Longrightarrow>
   \<forall>k. registry w k = Some OnQueryResponse \<longrightarrow> k = key_query_knowledge \<Longrightarrow>
   \<forall>k pl. Inbound k pl \<in> set es \<longrightarrow> k \<noteq> key_query_knowledge \<Longrightarrow>
   knowledgeQueryResponse (run p es w) = []"
proof (induction es arbitrary: w)
  case Nil
  then show ?case by (simp add: run_def)
next
  case (Cons e es)
  have e: "\<forall>k pl. e = Inbound k pl \<longrightarrow> k \<noteq> key_query_knowledge"
    using Cons.prems(3) by auto
  have s: "knowledgeQueryResponse (step p e w) = []
     \<and> (\<forall>k. registry (step p e w) k = Some OnQueryResponse \<longrightarrow> k = key_query_knowledge)"
    using step_no_answer [OF Cons.prems(1) Cons.prems(2) e] .
  have es: "\<forall>k pl. Inbound k pl \<in> set es \<longrightarrow> k \<noteq> key_query_knowledge"
    using Cons.prems(3) by auto
  have "knowledgeQueryResponse (run p es (step p e w)) = []"
    using s es by (intro Cons.IH) blast+
  then show ?case by (simp add: run_def)
qed

text \<open>
  C9. The response cell starts as the empty string, and it is still the empty string
  after any events among which no query_knowledge response was delivered; what is
  displayed is the cell's string itself, so the display shows the empty string.
\<close>

theorem response_empty_before_first_answer:
  "knowledgeQueryResponse init_world = []
   \<and> knowledgeQueryResponse (mount p w) = []
   \<and> response_text (render w) = knowledgeQueryResponse w
   \<and> ((\<forall>k pl. Inbound k pl \<in> set es \<longrightarrow> k \<noteq> key_query_knowledge) \<longrightarrow>
        knowledgeQueryResponse (run p es init_world) = []
        \<and> response_text (render (run p es init_world)) = [])"
proof -
  have a: "knowledgeQueryResponse init_world = []" by (simp add: init_world_def)
  have b: "knowledgeQueryResponse (mount p w) = []"
    by (simp add: mount_def register_effect_def effect_defs)
  have c: "response_text (render w) = knowledgeQueryResponse w" for w
    by (simp add: render_def)
  have r: "\<forall>k. registry init_world k = Some OnQueryResponse \<longrightarrow> k = key_query_knowledge"
    by (simp add: init_world_def)
  have d: "knowledgeQueryResponse (run p es init_world) = []"
    if "\<forall>k pl. Inbound k pl \<in> set es \<longrightarrow> k \<noteq> key_query_knowledge"
    using run_no_answer [OF a r that] .
  from a b c d show ?thesis by simp
qed

theorem response_empty_before_first_answer_witness:
  "response_text (render
     (run \<lparr>sendMessage = True, registerMessageHandler = True, deregisterMessageHandler = True\<rparr>
        [Mount, InputChange (js ''/a''), ClickQuery,
         Inbound key_get_routes (RoutesPayload \<lparr>explainer_routes = []\<rparr>)] init_world)) = []
   \<and> response_text (render
     (run \<lparr>sendMessage = True, registerMessageHandler = True, deregisterMessageHandler = True\<rparr>
        [Mount, Inbound key_query_knowledge (TextPayload (js ''42''))] init_world)) = js ''42''"
proof -
  let ?p = "\<lparr>sendMessage = True, registerMessageHandler = True, deregisterMessageHandler = True\<rparr>"
  let ?es = "[Mount, InputChange (js ''/a''), ClickQuery,
         Inbound key_get_routes (RoutesPayload \<lparr>explainer_routes = []\<rparr>)]"
  have h: "\<forall>k pl. Inbound k pl \<in> set ?es \<longrightarrow> k \<noteq> key_query_knowledge"
    using keys_differ by simp
  have a: "response_text (render (run ?p ?es init_world)) = []"
    using h response_empty_before_first_answer [of ?p init_world ?es] by blast
  have b: "response_text (render
     (run ?p [Mount, Inbound key_query_knowledge (TextPayload (js ''42''))] init_world)) = js ''42''"
    by (simp add: run_def init_world_def mount_def register_effect_def effect_defs deliver_def
        on_query_response_def Let_def render_def keys_differ js_def key_query_knowledge_def)
  from a b show ?thesis by simp
qed


section \<open>A session without registerMessageHandler\<close>

lemma fallback_copy_console:
  "\<exists>xs. console (fallback_copy b dot w) = console w @ xs"
  by (cases "execCommand_outcome b") (simp_all add: fallback_copy_def Let_def effect_defs)

lemma generateRouteDotGraph_console:
  "\<exists>xs. console (generateRouteDotGraph b w) = console w @ xs"
proof (cases "knowledgeLayerRoutes w")
  case None
  then show ?thesis by (simp add: generateRouteDotGraph_def effect_defs)
next
  case (Some rs)
  define w2 where "w2 = console_log (js ''Explainer Graph Edges:'')
       [ArgEdges (explainerGraphEdges (build_graph rs))]
       (console_log (js ''Explainer Graph Nodes:'')
          [ArgNodes (explainerGraphNodes (build_graph rs))] w)"
  have g: "generateRouteDotGraph b w = copy_to_clipboard b (serialize (build_graph rs)) w2"
    using Some by (simp add: generateRouteDotGraph_def Let_def w2_def)
  obtain ys where ys: "console w2 = console w @ ys"
    by (simp add: w2_def effect_defs)
  obtain zs where zs: "console (fallback_copy b (serialize (build_graph rs)) w2) = console w2 @ zs"
    using fallback_copy_console by blast
  show ?thesis
    unfolding g using ys zs by (simp add: copy_to_clipboard_def effect_defs)
qed

lemma invoke_console: "\<exists>xs. console (invoke cb pl w) = console w @ xs"
  by (cases cb; cases pl)
     (simp_all add: on_routes_def on_query_response_def Let_def effect_defs)

lemma step_console: "\<exists>xs. console (step p e w) = console w @ xs"
proof (cases e)
  case Mount
  then show ?thesis by (simp add: mount_def register_effect_def effect_defs)
next
  case Unmount
  then show ?thesis using unmount_frame [of w] by simp
next
  case ClickGetRoutes
  then show ?thesis by (simp add: getKnowledgeRoutes_def effect_defs)
next
  case (ClickGenerate b)
  then show ?thesis using generateRouteDotGraph_console [of b w] by simp
next
  case (InputChange v)
  then show ?thesis by simp
next
  case ClickQuery
  then show ?thesis by (simp add: queryKnowledge_def effect_defs)
next
  case (Inbound k pl)
  then show ?thesis using invoke_console [of _ pl w]
    by (cases "registry w k") (simp_all add: deliver_def)
qed

lemma run_console_keeps: "x \<in> set (console w) \<Longrightarrow> x \<in> set (console (run p es w))"
proof (induction es arbitrary: w)
  case Nil
  then show ?case by (simp add: run_def)
next
  case (Cons e es)
  obtain xs where "console (step p e w) = console w @ xs"
    using step_console by blast
  with Cons.prems have "x \<in> set (console (step p e w))" by simp
  then have "x \<in> set (console (run p es (step p e w)))" by (rule Cons.IH)
  then show ?case by (simp add: run_def)
qed

lemma step_unregistered:
  assumes p: "\<not> registerMessageHandler p"
    and inv: "registry w = Map.empty" "knowledgeLayerRoutes w = None"
      "knowledgeQueryResponse w = []" "effect_cleanup w = None"
  shows "registry (step p e w) = Map.empty \<and> knowledgeLayerRoutes (step p e w) = None
     \<and> knowledgeQueryResponse (step p e w) = [] \<and> effect_cleanup (step p e w) = None"
proof (cases e)
  case Mount
  then show ?thesis using p inv
    by (simp add: mount_def register_effect_def effect_defs)
next
  case Unmount
  then show ?thesis using inv by (simp add: unmount_def Let_def)
next
  case ClickGetRoutes
  then show ?thesis using inv by (simp add: getKnowledgeRoutes_def effect_defs)
next
  case (ClickGenerate b)
  then show ?thesis using inv generateRouteDotGraph_frame [of b w] by simp
next
  case (InputChange v)
  then show ?thesis using inv by simp
next
  case ClickQuery
  then show ?thesis using inv by (simp add: queryKnowledge_def effect_defs)
next
  case (Inbound k pl)
  then show ?thesis using inv by (simp add: deliver_def)
qed

lemma run_unregistered:
  "\<not> registerMessageHandler p \<Longrightarrow> registry w = Map.empty \<Longrightarrow>
   knowledgeLayerRoutes w = None \<Longrightarrow> knowledgeQueryResponse w = [] \<Longrightarrow>
   effect_cleanup w = None \<Longrightarrow>
   registry (run p es w) = Map.empty \<and> knowledgeLayerRoutes (run p es w) = None
     \<and> knowledgeQueryResponse (run p es w) = [] \<and> effect_cleanup (run p es w) = None"
proof (induction es arbitrary: w)
  case Nil
  then show ?case by (simp add: run_def)
next
  case (Cons e es)
  have s: "registry (step p e w) = Map.empty \<and> knowledgeLayerRoutes (step p e w) = None
     \<and> knowledgeQueryResponse (step p e w) = [] \<and> effect_cleanup (step p e w) = None"
    using step_unregistered [OF Cons.prems] .
  have "registry (run p es (step p e w)) = Map.empty
     \<and> knowledgeLayerRoutes (run p es (step p e w)) = None
     \<and> knowledgeQueryResponse (run p es (step p e w)) = []
     \<and> effect_cleanup (run p es (step p e w)) = None"
    using Cons.prems(1) s by (intro Cons.IH) blast+
  then show ?case by (simp add: run_def)
qed

lemma step_sent_without_channel:
  "\<not> sendMessage p \<Longrightarrow> sent (step p e w) = sent w"
proof (cases e)
  case Unmount
  then show ?thesis using unmount_frame [of w] by simp
next
  case (ClickGenerate b)
  then show ?thesis using generateRouteDotGraph_frame [of b w] by simp
next
  case (Inbound k pl)
  then show ?thesis using deliver_frame [of k pl w] by simp
qed (simp_all add: mount_def register_effect_def getKnowledgeRoutes_def
      queryKnowledge_def effect_defs)

lemma run_sent_without_channel:
  "\<not> sendMessage p \<Longrightarrow> sent (run p es w) = sent w"
proof (induction es arbitrary: w)
  case Nil
  then show ?case by (simp add: run_def)
next
  case (Cons e es)
  have "sent (run p es (step p e w)) = sent (step p e w)"
    using Cons.prems by (rule Cons.IH)
  then show ?case using Cons.prems by (simp add: run_def step_sent_without_channel)
qed

text \<open>
  C5, as stated, at a concrete input: \<open>registerMessageHandler\<close> is missing and
  \<open>sendMessage\<close> is supplied. The diagnostic is reported at mount, and then a click
  on the first button and a submitted query each send their message.
\<close>

theorem unregistered_session_sends_counterexample:
  "console (run \<lparr>sendMessage = True, registerMessageHandler = False,
                 deregisterMessageHandler = True\<rparr> [Mount] init_world) =
     [ConsoleError (js ''registerMessageHandler is not provided'') [],
      ConsoleLog (js ''Knowledge Query Response Updated:'') [ArgString []]]
   \<and> sent (run \<lparr>sendMessage = True, registerMessageHandler = False,
                 deregisterMessageHandler = True\<rparr>
             [Mount, ClickGetRoutes, InputChange (js ''/k''), ClickQuery] init_world) =
     [\<lparr>msg_namespace = js ''knowledge_layer'', msg_action = js ''get_routes'',
       msg_payload = None\<rparr>,
      \<lparr>msg_namespace = js ''knowledge_layer'', msg_action = js ''query_knowledge'',
       msg_payload = Some (js ''/k'')\<rparr>]"
  by (simp add: run_def init_world_def mount_def register_effect_def effect_defs
      getKnowledgeRoutes_def queryKnowledge_def trim_def is_ws_def js_def)

text \<open>
  C5, amended. When \<open>registerMessageHandler\<close> is not supplied at session start, the
  diagnostic is reported and no callback is ever registered, so for the rest of the
  session no response reaches the component: the route set stays absent and the
  response stays empty. Requests are not blocked by this: no message is ever sent only
  when \<open>sendMessage\<close> is missing as well.
\<close>

theorem unregistered_session_receives_nothing:
  "\<not> registerMessageHandler p \<longrightarrow>
     ConsoleError (js ''registerMessageHandler is not provided'') []
       \<in> set (console (run p (Mount # es) init_world))
     \<and> registry (run p (Mount # es) init_world) = Map.empty
     \<and> knowledgeLayerRoutes (run p (Mount # es) init_world) = None
     \<and> knowledgeQueryResponse (run p (Mount # es) init_world) = []
     \<and> (\<not> sendMessage p \<longrightarrow> sent (run p (Mount # es) init_world) = [])"
proof
  assume p: "\<not> registerMessageHandler p"
  have r: "run p (Mount # es) init_world = run p es (mount p init_world)"
    by (simp add: run_def init_world_def)
  have c: "ConsoleError (js ''registerMessageHandler is not provided'') []
       \<in> set (console (mount p init_world))"
    using p by (simp add: mount_def register_effect_def effect_defs init_world_def)
  have i: "registry (run p (Mount # es) init_world) = Map.empty
     \<and> knowledgeLayerRoutes (run p (Mount # es) init_world) = None
     \<and> knowledgeQueryResponse (run p (Mount # es) init_world) = []
     \<and> effect_cleanup (run p (Mount # es) init_world) = None"
    by (rule run_unregistered [OF p]) (simp_all add: init_world_def)
  have s: "\<not> sendMessage p \<longrightarrow> sent (run p (Mount # es) init_world) = []"
    by (simp add: run_sent_without_channel init_world_def)
  from c i s show "ConsoleError (js ''registerMessageHandler is not provided'') []
       \<in> set (console (run p (Mount # es) init_world))
     \<and> registry (run p (Mount # es) init_world) = Map.empty
     \<and> knowledgeLayerRoutes (run p (Mount # es) init_world) = None
     \<and> knowledgeQueryResponse (run p (Mount # es) init_world) = []
     \<and> (\<not> sendMessage p \<longrightarrow> sent (run p (Mount # es) init_world) = [])"
    unfolding r by (simp add: run_console_keeps)
qed

theorem unregistered_session_receives_nothing_witness:
  "knowledgeLayerRoutes
     (run \<lparr>sendMessage = False, registerMessageHandler = False,
           deregisterMessageHandler = True\<rparr>
        [Mount, ClickGetRoutes,
         Inbound key_get_routes (RoutesPayload \<lparr>explainer_routes = []\<rparr>),
         Inbound key_query_knowledge (TextPayload (js ''42''))] init_world) = None
   \<and> knowledgeQueryResponse
     (run \<lparr>sendMessage = False, registerMessageHandler = False,
           deregisterMessageHandler = True\<rparr>
        [Mount, ClickGetRoutes,
         Inbound key_get_routes (RoutesPayload \<lparr>explainer_routes = []\<rparr>),
         Inbound key_query_knowledge (TextPayload (js ''42''))] init_world) = []
   \<and> sent
     (run \<lparr>sendMessage = False, registerMessageHandler = False,
           deregisterMessageHandler = True\<rparr>
        [Mount, ClickGetRoutes,
         Inbound key_get_routes (RoutesPayload \<lparr>explainer_routes = []\<rparr>),
         Inbound key_query_knowledge (TextPayload (js ''42''))] init_world) = []"
  using unregistered_session_receives_nothing
    [of "\<lparr>sendMessage = False, registerMessageHandler = False,
          deregisterMessageHandler = True\<rparr>"
        "[ClickGetRoutes,
         Inbound key_get_routes (RoutesPayload \<lparr>explainer_routes = []\<rparr>),
         Inbound key_query_knowledge (TextPayload (js ''42''))]"]
  by simp


section \<open>Requesting and receiving the routes\<close>

lemma step_routes_callback:
  assumes inv: "mounted w \<and> registerMessageHandler p \<longrightarrow> registry w key_get_routes = Some OnRoutes"
  shows "mounted (step p e w) \<and> registerMessageHandler p \<longrightarrow>
           registry (step p e w) key_get_routes = Some OnRoutes"
proof (cases e)
  case Mount
  then show ?thesis using inv
    by (simp add: mount_def register_effect_def effect_defs key_get_routes_def
        key_query_knowledge_def js_def)
next
  case Unmount
  then show ?thesis using inv by (simp add: unmount_def Let_def)
next
  case ClickGetRoutes
  then show ?thesis using inv by (simp add: getKnowledgeRoutes_def effect_defs)
next
  case (ClickGenerate b)
  then show ?thesis using inv generateRouteDotGraph_frame [of b w] by simp
next
  case (InputChange v)
  then show ?thesis using inv by simp
next
  case ClickQuery
  then show ?thesis using inv by (simp add: queryKnowledge_def effect_defs)
next
  case (Inbound k pl)
  then show ?thesis using inv deliver_frame [of k pl w] by simp
qed

lemma run_routes_callback:
  "mounted w \<and> registerMessageHandler p \<longrightarrow> registry w key_get_routes = Some OnRoutes \<Longrightarrow>
   mounted (run p es w) \<and> registerMessageHandler p \<longrightarrow>
     registry (run p es w) key_get_routes = Some OnRoutes"
proof (induction es arbitrary: w)
  case Nil
  then show ?case by (simp add: run_def)
next
  case (Cons e es)
  have "mounted (run p es (step p e w)) \<and> registerMessageHandler p \<longrightarrow>
     registry (run p es (step p e w)) key_get_routes = Some OnRoutes"
    using step_routes_callback [OF Cons.prems] by (rule Cons.IH)
  then show ?case by (simp add: run_def)
qed

text \<open>
  C6. The request made by \<open>getKnowledgeRoutes\<close> is one message to
  (knowledge_layer, get_routes) with no payload (it is made when \<open>sendMessage\<close>
  is supplied; otherwise only a diagnostic is reported). In a session started with
  \<open>registerMessageHandler\<close>, at any point while it is mounted, an inbound get_routes
  response becomes the stored route set, whatever was stored before: the stored value
  is the response itself.
\<close>

theorem get_routes_request_and_response:
  "getKnowledgeRoutes p w =
     (if sendMessage p then
        w\<lparr>sent := sent w @ [\<lparr>msg_namespace = js ''knowledge_layer'',
                              msg_action = js ''get_routes'', msg_payload = None\<rparr>]\<rparr>
      else w\<lparr>console := console w @ [ConsoleError (js ''websocket is not connected'') []]\<rparr>)
   \<and> (mounted w \<longrightarrow> knowledgeLayerRoutes (on_routes response w) = Some response)
   \<and> (registerMessageHandler p \<and> mounted (run p es init_world) \<longrightarrow>
        knowledgeLayerRoutes
          (step p (Inbound key_get_routes (RoutesPayload response)) (run p es init_world)) =
          Some response)"
proof -
  have a: "getKnowledgeRoutes p w =
     (if sendMessage p then
        w\<lparr>sent := sent w @ [\<lparr>msg_namespace = js ''knowledge_layer'',
                              msg_action = js ''get_routes'', msg_payload = None\<rparr>]\<rparr>
      else w\<lparr>console := console w @ [ConsoleError (js ''websocket is not connected'') []]\<rparr>)"
    by (simp add: getKnowledgeRoutes_def effect_defs)
  have b: "mounted w \<longrightarrow> knowledgeLayerRoutes (on_routes response w) = Some response" for w
    by (simp add: on_routes_def effect_defs)
  have c: "knowledgeLayerRoutes
          (step p (Inbound key_get_routes (RoutesPayload response)) (run p es init_world)) =
          Some response"
    if r: "registerMessageHandler p" and m: "mounted (run p es init_world)"
  proof -
    have "mounted (run p es init_world) \<and> registerMessageHandler p \<longrightarrow>
       registry (run p es init_world) key_get_routes = Some OnRoutes"
      by (rule run_routes_callback) (simp add: init_world_def)
    with r m have "registry (run p es init_world) key_get_routes = Some OnRoutes" by simp
    then show ?thesis using b [of "run p es init_world"] m by (simp add: deliver_def)
  qed
  from a b c show ?thesis by blast
qed

theorem get_routes_request_and_response_witness:
  "sent (getKnowledgeRoutes
          \<lparr>sendMessage = True, registerMessageHandler = True, deregisterMessageHandler = True\<rparr>
          init_world) =
     [\<lparr>msg_namespace = js ''knowledge_layer'', msg_action = js ''get_routes'', msg_payload = None\<rparr>]
   \<and> mounted
       (run \<lparr>sendMessage = True, registerMessageHandler = True, deregisterMessageHandler = True\<rparr>
          [Mount,
           Inbound key_get_routes (RoutesPayload \<lparr>explainer_routes =
             [\<lparr>pattern = js ''/a'', related = []\<rparr>, \<lparr>pattern = js ''/b'', related = []\<rparr>]\<rparr>)]
          init_world)
   \<and> knowledgeLayerRoutes
       (run \<lparr>sendMessage = True, registerMessageHandler = True, deregisterMessageHandler = True\<rparr>
          [Mount,
           Inbound key_get_routes (RoutesPayload \<lparr>explainer_routes =
             [\<lparr>pattern = js ''/a'', related = []\<rparr>, \<lparr>pattern = js ''/b'', related = []\<rparr>]\<rparr>)]
          init_world) =
     Some \<lparr>explainer_routes =
             [\<lparr>pattern = js ''/a'', related = []\<rparr>, \<lparr>pattern = js ''/b'', related = []\<rparr>]\<rparr>
   \<and> knowledgeLayerRoutes
       (run \<lparr>sendMessage = True, registerMessageHandler = True, deregisterMessageHandler = True\<rparr>
          [Mount,
           Inbound key_get_routes (RoutesPayload \<lparr>explainer_routes =
             [\<lparr>pattern = js ''/a'', related = []\<rparr>, \<lparr>pattern = js ''/b'', related = []\<rparr>]\<rparr>),
           Inbound key_get_routes (RoutesPayload \<lparr>explainer_routes =
             [\<lparr>pattern = js ''/c'', related = []\<rparr>]\<rparr>)] init_world) =
     Some \<lparr>explainer_routes = [\<lparr>pattern = js ''/c'', related = []\<rparr>]\<rparr>"
proof -
  let ?p = "\<lparr>sendMessage = True, registerMessageHandler = True, deregisterMessageHandler = True\<rparr>"
  let ?r1 = "\<lparr>explainer_routes =
             [\<lparr>pattern = js ''/a'', related = []\<rparr>, \<lparr>pattern = js ''/b'', related = []\<rparr>]\<rparr>"
  let ?r2 = "\<lparr>explainer_routes = [\<lparr>pattern = js ''/c'', related = []\<rparr>]\<rparr>"
  have r: "run p (es @ [e]) w = step p e (run p es w)" for p es e w
    by (simp add: run_def)
  have m1: "mounted (run ?p [Mount] init_world)"
    by (simp add: run_def init_world_def mount_def register_effect_def effect_defs)
  have e1: "run ?p [Mount, Inbound key_get_routes (RoutesPayload ?r1)] init_world =
      step ?p (Inbound key_get_routes (RoutesPayload ?r1)) (run ?p [Mount] init_world)"
    using r [of ?p "[Mount]"] by simp
  have m2: "mounted (run ?p [Mount, Inbound key_get_routes (RoutesPayload ?r1)] init_world)"
    unfolding e1 using m1 deliver_frame [of key_get_routes "RoutesPayload ?r1" "run ?p [Mount] init_world"]
    by simp
  have k1: "knowledgeLayerRoutes
       (run ?p [Mount, Inbound key_get_routes (RoutesPayload ?r1)] init_world) = Some ?r1"
    unfolding e1
    using m1 get_routes_request_and_response [of ?p init_world ?r1 "[Mount]"] by simp
  have e2: "run ?p [Mount, Inbound key_get_routes (RoutesPayload ?r1),
                    Inbound key_get_routes (RoutesPayload ?r2)] init_world =
      step ?p (Inbound key_get_routes (RoutesPayload ?r2))
        (run ?p [Mount, Inbound key_get_routes (RoutesPayload ?r1)] init_world)"
    using r [of ?p "[Mount, Inbound key_get_routes (RoutesPayload ?r1)]"] by simp
  have k2: "knowledgeLayerRoutes
       (run ?p [Mount, Inbound key_get_routes (RoutesPayload ?r1),
                Inbound key_get_routes (RoutesPayload ?r2)] init_world) = Some ?r2"
    unfolding e2
    using m2 get_routes_request_and_response
      [of ?p init_world ?r2 "[Mount, Inbound key_get_routes (RoutesPayload ?r1)]"] by simp
  have s: "sent (getKnowledgeRoutes ?p init_world) =
     [\<lparr>msg_namespace = js ''knowledge_layer'', msg_action = js ''get_routes'', msg_payload = None\<rparr>]"
    using get_routes_request_and_response [of ?p init_world ?r1 "[]"]
    by (simp add: init_world_def)
  from s m2 k1 k2 show ?thesis by simp
qed


section \<open>Teardown\<close>

lemma mount_cleanup:
  "mounted (mount p w)
   \<and> effect_cleanup (mount p w) = (if registerMessageHandler p then Some p else None)"
  by (simp add: mount_def register_effect_def effect_defs)

lemma step_keeps_cleanup:
  assumes m: "mounted w" and e: "e \<noteq> Unmount"
  shows "mounted (step q e w) \<and> effect_cleanup (step q e w) = effect_cleanup w"
proof (cases e)
  case Mount
  then show ?thesis using m by simp
next
  case Unmount
  then show ?thesis using e by simp
next
  case ClickGetRoutes
  then show ?thesis using m by (simp add: getKnowledgeRoutes_def effect_defs)
next
  case (ClickGenerate b)
  then show ?thesis using m generateRouteDotGraph_frame [of b w] by simp
next
  case (InputChange v)
  then show ?thesis using m by simp
next
  case ClickQuery
  then show ?thesis using m by (simp add: queryKnowledge_def effect_defs)
next
  case (Inbound k pl)
  then show ?thesis using m deliver_frame [of k pl w] by simp
qed

lemma session_keeps_cleanup:
  "mounted w \<Longrightarrow> \<forall>pe\<in>set pes. snd pe \<noteq> Unmount \<Longrightarrow>
   mounted (session pes w) \<and> effect_cleanup (session pes w) = effect_cleanup w"
proof (induction pes arbitrary: w)
  case Nil
  then show ?case by (simp add: session_def)
next
  case (Cons pe pes)
  obtain q e where pe: "pe = (q, e)" by (cases pe)
  have e: "e \<noteq> Unmount" using Cons.prems(2) pe by simp
  have s: "mounted (step q e w) \<and> effect_cleanup (step q e w) = effect_cleanup w"
    using step_keeps_cleanup [OF Cons.prems(1) e] .
  have r: "\<forall>pe\<in>set pes. snd pe \<noteq> Unmount" using Cons.prems(2) by simp
  have "mounted (session pes (step q e w))
      \<and> effect_cleanup (session pes (step q e w)) = effect_cleanup (step q e w)"
    using s r by (intro Cons.IH) simp_all
  then show ?case using s pe by (simp add: session_def)
qed

lemma exit_is_unmount:
  "mounted w \<Longrightarrow> \<not> mounted (step q e w) \<Longrightarrow> e = Unmount"
  using step_keeps_cleanup [of w e q] by blast

lemma unmount_with_cleanup:
  "effect_cleanup w = Some p0 \<Longrightarrow>
     \<not> mounted (unmount w)
     \<and> (deregisterMessageHandler p0 \<longrightarrow>
          deregistered (unmount w) = deregistered w @ [key_get_routes, key_query_knowledge]
          \<and> registry (unmount w) key_get_routes = None
          \<and> registry (unmount w) key_query_knowledge = None
          \<and> console (unmount w) = console w)
     \<and> (\<not> deregisterMessageHandler p0 \<longrightarrow>
          console (unmount w) =
            console w @ [ConsoleError (js ''deregisterMessageHandler is not provided'') []]
          \<and> deregistered (unmount w) = deregistered w
          \<and> registry (unmount w) = registry w)"
  by (simp add: unmount_def cleanup_def Let_def effect_defs)

lemma unmount_without_cleanup:
  "effect_cleanup w = None \<Longrightarrow>
     \<not> mounted (unmount w) \<and> console (unmount w) = console w
     \<and> deregistered (unmount w) = deregistered w \<and> registry (unmount w) = registry w"
  by (simp add: unmount_def Let_def)

text \<open>
  C7, as stated, at concrete inputs. With neither \<open>registerMessageHandler\<close> nor
  \<open>deregisterMessageHandler\<close> supplied, mounting and unmounting reports the missing
  registration only: no diagnostic about deregistration follows. With only
  \<open>registerMessageHandler\<close> missing, unmounting deregisters no key. And when
  \<open>deregisterMessageHandler\<close> is missing at the first render but supplied by the time
  of the teardown, the teardown still reports it missing and deregisters no key.
\<close>

theorem teardown_without_registration_counterexample:
  "console (run \<lparr>sendMessage = True, registerMessageHandler = False,
                 deregisterMessageHandler = False\<rparr> [Mount, Unmount] init_world) =
     [ConsoleError (js ''registerMessageHandler is not provided'') [],
      ConsoleLog (js ''Knowledge Query Response Updated:'') [ArgString []]]
   \<and> deregistered (run \<lparr>sendMessage = True, registerMessageHandler = False,
                 deregisterMessageHandler = True\<rparr> [Mount, Unmount] init_world) = []
   \<and> deregistered (session
        [(\<lparr>sendMessage = True, registerMessageHandler = True,
           deregisterMessageHandler = False\<rparr>, Mount),
         (\<lparr>sendMessage = True, registerMessageHandler = True,
           deregisterMessageHandler = True\<rparr>, Unmount)] init_world) = []
   \<and> console (session
        [(\<lparr>sendMessage = True, registerMessageHandler = True,
           deregisterMessageHandler = False\<rparr>, Mount),
         (\<lparr>sendMessage = True, registerMessageHandler = True,
           deregisterMessageHandler = True\<rparr>, Unmount)] init_world) =
     [ConsoleLog (js ''Knowledge Query Response Updated:'') [ArgString []],
      ConsoleError (js ''deregisterMessageHandler is not provided'') []]"
  by (simp add: run_def session_def init_world_def mount_def register_effect_def unmount_def
      cleanup_def Let_def effect_defs)

text \<open>
  C7, amended. Take a session from its mount, with the props \<open>p0\<close> of its first
  render, through any events under any later props, up to a world \<open>w\<close> in which it
  is still alive. The only event that ends the session is the unmount, and the unmount
  always ends it, so the teardown below runs on every exit. When
  \<open>registerMessageHandler\<close> was supplied at the first render, the teardown
  deregisters both keys, (knowledge_layer, get_routes) and
  (knowledge_layer, query_knowledge), if \<open>deregisterMessageHandler\<close> was supplied at
  the first render; if it was not, the diagnostic is reported, nothing is deregistered
  and the session still ends. The props of the render in which the session ends play no
  part. When \<open>registerMessageHandler\<close> was not supplied at the first render, ending
  the session deregisters nothing and reports nothing.
\<close>

theorem teardown_after_registration:
  "\<not> mounted w0 \<and> (\<forall>pe\<in>set pes. snd pe \<noteq> Unmount) \<and> w = session ((p0, Mount) # pes) w0 \<longrightarrow>
     mounted w
     \<and> (\<not> mounted (step q e w) \<longrightarrow> e = Unmount)
     \<and> \<not> mounted (step q Unmount w)
     \<and> (registerMessageHandler p0 \<and> deregisterMessageHandler p0 \<longrightarrow>
          deregistered (step q Unmount w) =
            deregistered w @ [key_get_routes, key_query_knowledge]
          \<and> registry (step q Unmount w) key_get_routes = None
          \<and> registry (step q Unmount w) key_query_knowledge = None
          \<and> console (step q Unmount w) = console w)
     \<and> (registerMessageHandler p0 \<and> \<not> deregisterMessageHandler p0 \<longrightarrow>
          console (step q Unmount w) =
            console w @ [ConsoleError (js ''deregisterMessageHandler is not provided'') []]
          \<and> deregistered (step q Unmount w) = deregistered w
          \<and> registry (step q Unmount w) = registry w)
     \<and> (\<not> registerMessageHandler p0 \<longrightarrow>
          console (step q Unmount w) = console w
          \<and> deregistered (step q Unmount w) = deregistered w
          \<and> registry (step q Unmount w) = registry w)"
proof (intro impI, elim conjE)
  assume w0: "\<not> mounted w0" and pes: "\<forall>pe\<in>set pes. snd pe \<noteq> Unmount"
    and w: "w = session ((p0, Mount) # pes) w0"
  have w': "w = session pes (mount p0 w0)"
    using w0 w by (simp add: session_def)
  have "mounted (session pes (mount p0 w0))
      \<and> effect_cleanup (session pes (mount p0 w0)) = effect_cleanup (mount p0 w0)"
    using mount_cleanup [of p0 w0] pes by (intro session_keeps_cleanup) simp_all
  then have m: "mounted w"
    and c: "effect_cleanup w = (if registerMessageHandler p0 then Some p0 else None)"
    using mount_cleanup [of p0 w0] by (simp_all add: w')
  have x: "\<not> mounted (step q e w) \<longrightarrow> e = Unmount"
    using m exit_is_unmount by blast
  have u: "step q Unmount w = unmount w" using m by simp
  show "mounted w
     \<and> (\<not> mounted (step q e w) \<longrightarrow> e = Unmount)
     \<and> \<not> mounted (step q Unmount w)
     \<and> (registerMessageHandler p0 \<and> deregisterMessageHandler p0 \<longrightarrow>
          deregistered (step q Unmount w) =
            deregistered w @ [key_get_routes, key_query_knowledge]
          \<and> registry (step q Unmount w) key_get_routes = None
          \<and> registry (step q Unmount w) key_query_knowledge = None
          \<and> console (step q Unmount w) = console w)
     \<and> (registerMessageHandler p0 \<and> \<not> deregisterMessageHandler p0 \<longrightarrow>
          console (step q Unmount w) =
            console w @ [ConsoleError (js ''deregisterMessageHandler is not provided'') []]
          \<and> deregistered (step q Unmount w) = deregistered w
          \<and> registry (step q Unmount w) = registry w)
     \<and> (\<not> registerMessageHandler p0 \<longrightarrow>
          console (step q Unmount w) = console w
          \<and> deregistered (step q Unmount w) = deregistered w
          \<and> registry (step q Unmount w) = registry w)"
  proof (cases "registerMessageHandler p0")
    case True
    then have "effect_cleanup w = Some p0" using c by simp
    from unmount_with_cleanup [OF this] m x True show ?thesis
      unfolding u by simp
  next
    case False
    then have "effect_cleanup w = None" using c by simp
    from unmount_without_cleanup [OF this] m x False show ?thesis
      unfolding u by simp
  qed
qed

theorem teardown_after_registration_witness:
  "\<not> mounted init_world
   \<and> deregistered (session
        [(\<lparr>sendMessage = True, registerMessageHandler = True,
           deregisterMessageHandler = True\<rparr>, Mount),
         (\<lparr>sendMessage = True, registerMessageHandler = True,
           deregisterMessageHandler = True\<rparr>, ClickGetRoutes),
         (\<lparr>sendMessage = True, registerMessageHandler = True,
           deregisterMessageHandler = False\<rparr>, Unmount)] init_world) =
       [key_get_routes, key_query_knowledge]
   \<and> registry (session
        [(\<lparr>sendMessage = True, registerMessageHandler = True,
           deregisterMessageHandler = True\<rparr>, Mount),
         (\<lparr>sendMessage = True, registerMessageHandler = True,
           deregisterMessageHandler = True\<rparr>, ClickGetRoutes),
         (\<lparr>sendMessage = True, registerMessageHandler = True,
           deregisterMessageHandler = False\<rparr>, Unmount)] init_world) key_get_routes = None
   \<and> registry (session
        [(\<lparr>sendMessage = True, registerMessageHandler = True,
           deregisterMessageHandler = True\<rparr>, Mount),
         (\<lparr>sendMessage = True, registerMessageHandler = True,
           deregisterMessageHandler = True\<rparr>, ClickGetRoutes),
         (\<lparr>sendMessage = True, registerMessageHandler = True,
           deregisterMessageHandler = False\<rparr>, Unmount)] init_world) key_query_knowledge = None
   \<and> console (session
        [(\<lparr>sendMessage = True, registerMessageHandler = True,
           deregisterMessageHandler = False\<rparr>, Mount),
         (\<lparr>sendMessage = True, registerMessageHandler = True,
           deregisterMessageHandler = False\<rparr>, Unmount)] init_world) =
       [ConsoleLog (js ''Knowledge Query Response Updated:'') [ArgString []],
        ConsoleError (js ''deregisterMessageHandler is not provided'') []]
   \<and> \<not> mounted (session
        [(\<lparr>sendMessage = True, registerMessageHandler = True,
           deregisterMessageHandler = False\<rparr>, Mount),
         (\<lparr>sendMessage = True, registerMessageHandler = True,
           deregisterMessageHandler = False\<rparr>, Unmount)] init_world)"
proof -
  let ?p = "\<lparr>sendMessage = True, registerMessageHandler = True,
             deregisterMessageHandler = True\<rparr>"
  let ?q = "\<lparr>sendMessage = True, registerMessageHandler = True,
             deregisterMessageHandler = False\<rparr>"
  let ?w1 = "session ((?p, Mount) # [(?p, ClickGetRoutes)]) init_world"
  let ?w2 = "session ((?q, Mount) # []) init_world"
  have s: "session (pes @ [(q, e)]) w = step q e (session pes w)" for pes q e w
    by (simp add: session_def)
  have m0: "\<not> mounted init_world" by (simp add: init_world_def)
  have h1: "\<forall>pe\<in>set [(?p, ClickGetRoutes)]. snd pe \<noteq> Unmount" by simp
  have h2: "\<forall>pe\<in>set ([]::(props \<times> event) list). snd pe \<noteq> Unmount" by simp
  have d1: "deregistered ?w1 = []"
    by (simp add: session_def init_world_def mount_def register_effect_def effect_defs
        getKnowledgeRoutes_def)
  have c2: "console ?w2 = [ConsoleLog (js ''Knowledge Query Response Updated:'') [ArgString []]]"
    by (simp add: session_def init_world_def mount_def register_effect_def effect_defs)
  have a: "session [(?p, Mount), (?p, ClickGetRoutes), (?q, Unmount)] init_world =
      step ?q Unmount ?w1"
    using s [of "[(?p, Mount), (?p, ClickGetRoutes)]" ?q Unmount init_world] by simp
  have b: "session [(?q, Mount), (?q, Unmount)] init_world = step ?q Unmount ?w2"
    using s [of "[(?q, Mount)]" ?q Unmount init_world] by simp
  have t1: "deregistered (step ?q Unmount ?w1) =
        deregistered ?w1 @ [key_get_routes, key_query_knowledge]
      \<and> registry (step ?q Unmount ?w1) key_get_routes = None
      \<and> registry (step ?q Unmount ?w1) key_query_knowledge = None"
    using m0 h1
      teardown_after_registration [of init_world "[(?p, ClickGetRoutes)]" ?w1 ?p ?q Unmount]
    by (simp del: step.simps)
  have t2: "console (step ?q Unmount ?w2) =
        console ?w2 @ [ConsoleError (js ''deregisterMessageHandler is not provided'') []]
      \<and> \<not> mounted (step ?q Unmount ?w2)"
    using m0 h2
      teardown_after_registration [of init_world "[]" ?w2 ?q ?q Unmount]
    by (simp del: step.simps)
  show ?thesis
    unfolding a b using m0 t1 t2 d1 c2 by (simp del: step.simps)
qed

end
